theory Spec2Isabelle
  imports Main
begin

section \<open>JavaScript values\<close>

text \<open>
  The TypeScript sources pass \<^verbatim>\<open>any\<close>-typed values around: request parts, validated
  parameters, thrown failures, database rows, response bodies. They are modelled by one
  datatype of JavaScript values. Numbers are the integer-valued ones (status codes,
  identifiers); an object is the list of its own properties.
\<close>

datatype jsval =
    JUndefined
  | JNull
  | JBool bool
  | JNum int
  | JStr string
  | JArr "jsval list"
  | JObj "(string \<times> jsval) list"

text \<open>Truthiness, as \<^verbatim>\<open>if (x)\<close>, \<^verbatim>\<open>!x\<close> and \<^verbatim>\<open>x || y\<close> read it.\<close>

fun truthy :: "jsval \<Rightarrow> bool" where
  "truthy JUndefined = False"
| "truthy JNull = False"
| "truthy (JBool b) = b"
| "truthy (JNum n) = (n \<noteq> 0)"
| "truthy (JStr s) = (s \<noteq> [])"
| "truthy (JArr xs) = True"
| "truthy (JObj ps) = True"

definition js_or :: "jsval \<Rightarrow> jsval \<Rightarrow> jsval" where
  "js_or a b = (if truthy a then a else b)"

text \<open>
  The \<^verbatim>\<open>TypeError\<close> that JavaScript throws when a property of \<^verbatim>\<open>undefined\<close> or
  \<^verbatim>\<open>null\<close> is read.
\<close>

definition type_error :: "string \<Rightarrow> jsval" where
  "type_error k =
     JObj [(''name'', JStr ''TypeError''),
           (''message'', JStr (''Cannot read properties of undefined or null, reading '' @ k))]"

text \<open>
  Member access \<^verbatim>\<open>v.k\<close>. On \<^verbatim>\<open>undefined\<close> and \<^verbatim>\<open>null\<close> it throws (\<open>Inl\<close>); on an
  object it yields the property or \<^verbatim>\<open>undefined\<close>; the sources only read the members
  \<^verbatim>\<open>errors\<close>, \<^verbatim>\<open>message\<close>, \<^verbatim>\<open>code\<close>, \<^verbatim>\<open>statusCode\<close> and \<^verbatim>\<open>stack\<close>, which booleans,
  numbers, strings and arrays do not have.
\<close>

fun js_get :: "jsval \<Rightarrow> string \<Rightarrow> jsval + jsval" where
  "js_get JUndefined k = Inl (type_error k)"
| "js_get JNull k = Inl (type_error k)"
| "js_get (JObj ps) k = Inr (case map_of ps k of None \<Rightarrow> JUndefined | Some v \<Rightarrow> v)"
| "js_get (JBool b) k = Inr JUndefined"
| "js_get (JNum n) k = Inr JUndefined"
| "js_get (JStr s) k = Inr JUndefined"
| "js_get (JArr xs) k = Inr JUndefined"

text \<open>Whether an object has the own property \<open>k\<close>.\<close>

fun has_prop :: "jsval \<Rightarrow> string \<Rightarrow> bool" where
  "has_prop (JObj ps) k = (map_of ps k \<noteq> None)"
| "has_prop v k = False"

text \<open>Array indexing \<^verbatim>\<open>xs[i]\<close>: \<^verbatim>\<open>undefined\<close> past the end.\<close>

definition js_index :: "jsval list \<Rightarrow> nat \<Rightarrow> jsval" where
  "js_index xs i = (if i < length xs then xs ! i else JUndefined)"

text \<open>Creating or overwriting the own property \<open>k\<close> of an object.\<close>

fun own_set :: "(string \<times> jsval) list \<Rightarrow> string \<Rightarrow> jsval \<Rightarrow> (string \<times> jsval) list" where
  "own_set [] k v = [(k, v)]"
| "own_set ((k', v') # ps) k v =
     (if k' = k then (k, v) # ps else (k', v') # own_set ps k v)"

text \<open>
  Property assignment \<^verbatim>\<open>obj[k] = v\<close> on an object created by the literal \<^verbatim>\<open>{}\<close>, as far
  as its own properties go. The name \<^verbatim>\<open>__proto__\<close> is the accessor inherited from
  \<^verbatim>\<open>Object.prototype\<close>: assigning to it replaces the prototype or does nothing, and
  creates no own property. Every other name becomes, or stays, an own property.
\<close>

definition obj_set :: "(string \<times> jsval) list \<Rightarrow> string \<Rightarrow> jsval \<Rightarrow> (string \<times> jsval) list" where
  "obj_set ps k v = (if k = ''__proto__'' then ps else own_set ps k v)"


section \<open>The validation pipeline (middleware/crud)\<close>

record SecurityConfig =
  securable :: string
  permission :: string

record credential_t =
  idAccount :: int
  idUser :: int

record ValidationResult =
  credential :: credential_t
  params :: jsval

text \<open>
  The Express request, as far as the sources read it: path parameters, query parameters,
  the body (absent when no body parser filled it), and the path and method that the error
  middleware logs.
\<close>

record request =
  req_params :: "string \<rightharpoonup> jsval"
  req_query :: "string \<rightharpoonup> jsval"
  req_body :: "(string \<rightharpoonup> jsval) option"
  req_path :: string
  req_method :: string

text \<open>
  The caller-supplied schema. \<^verbatim>\<open>schema.parseAsync(params)\<close> is a promise: it resolves
  with the validated value or rejects with whatever was thrown while parsing. The
  handler is \<^verbatim>\<open>catch (error: any)\<close>, so a rejection carries an arbitrary value.
\<close>

datatype parse_outcome = Resolved jsval | Rejected jsval

type_synonym schema = "(string \<rightharpoonup> jsval) \<Rightarrow> parse_outcome"

text \<open>
  A \<^verbatim>\<open>ZodError\<close>, the failure with which a schema rejects an input that violates it:
  its \<^verbatim>\<open>errors\<close> member is the list of field violations (the issues).
\<close>

definition zod_error :: "jsval list \<Rightarrow> jsval" where
  "zod_error issues =
     JObj [(''name'', JStr ''ZodError''), (''issues'', JArr issues), (''errors'', JArr issues)]"

text \<open>The object literal that \<open>validate\<close> puts into the second slot.\<close>

record validation_error =
  statusCode :: int
  code :: string
  message :: string
  details :: jsval

text \<open>Spreading \<^verbatim>\<open>...req.body\<close>: an absent body contributes no property.\<close>

definition spread :: "(string \<rightharpoonup> jsval) option \<Rightarrow> (string \<rightharpoonup> jsval)" where
  "spread b = (case b of None \<Rightarrow> Map.empty | Some m \<Rightarrow> m)"

text \<open>\<^verbatim>\<open>{ ...req.params, ...req.query, ...req.body }\<close>\<close>

definition merge_input :: "request \<Rightarrow> (string \<rightharpoonup> jsval)" where
  "merge_input req = req_params req ++ req_query req ++ spread (req_body req)"

text \<open>
  \<open>CrudController.validate\<close>. The result is \<open>Inr\<close> of the two-slot tuple the promise
  resolves with, or \<open>Inl\<close> of the value the promise rejects with. The only place of the
  body that can throw outside the \<^verbatim>\<open>try\<close> block is the \<^verbatim>\<open>catch\<close> handler itself,
  where it reads \<^verbatim>\<open>error.errors\<close>.
\<close>

definition validate ::
  "SecurityConfig list \<Rightarrow> request \<Rightarrow> schema \<Rightarrow> string
     \<Rightarrow> jsval + (ValidationResult option \<times> validation_error option)" where
  "validate this req schema operation =
     (case schema (merge_input req) of
        Resolved validated \<Rightarrow>
          Inr (Some \<lparr>credential = \<lparr>idAccount = 1, idUser = 1\<rparr>, params = validated\<rparr>, None)
      | Rejected error \<Rightarrow>
          (case js_get error ''errors'' of
             Inl thrown \<Rightarrow> Inl thrown
           | Inr errors \<Rightarrow>
               Inr (None,
                    Some \<lparr>statusCode = 400, code = ''VALIDATION_ERROR'',
                          message = ''Validation failed'', details = errors\<rparr>)))"

definition create ::
  "SecurityConfig list \<Rightarrow> request \<Rightarrow> schema
     \<Rightarrow> jsval + (ValidationResult option \<times> validation_error option)" where
  "create this req schema = validate this req schema ''CREATE''"

definition read ::
  "SecurityConfig list \<Rightarrow> request \<Rightarrow> schema
     \<Rightarrow> jsval + (ValidationResult option \<times> validation_error option)" where
  "read this req schema = validate this req schema ''READ''"

definition update ::
  "SecurityConfig list \<Rightarrow> request \<Rightarrow> schema
     \<Rightarrow> jsval + (ValidationResult option \<times> validation_error option)" where
  "update this req schema = validate this req schema ''UPDATE''"

definition delete ::
  "SecurityConfig list \<Rightarrow> request \<Rightarrow> schema
     \<Rightarrow> jsval + (ValidationResult option \<times> validation_error option)" where
  "delete this req schema = validate this req schema ''DELETE''"


subsection \<open>An example schema and example requests\<close>




definition id_issue :: jsval where
  "id_issue = JObj [(''path'', JArr [JStr ''id'']), (''message'', JStr ''Invalid id'')]"



text \<open>A request whose \<^verbatim>\<open>id\<close> is not a number.\<close>

definition invalid_request :: request where
  "invalid_request =
     \<lparr>req_params = [''id'' \<mapsto> JStr ''abc''], req_query = Map.empty,
      req_body = None, req_path = ''/task/abc'', req_method = ''GET''\<rparr>"

text \<open>
  A schema whose asynchronous refinement rejects without a reason, as
  \<^verbatim>\<open>Promise.reject()\<close> does: the rejection value is \<^verbatim>\<open>undefined\<close>.
\<close>

definition rejecting_schema :: schema where
  "rejecting_schema input = Rejected JUndefined"

text \<open>A schema whose refinement throws \<^verbatim>\<open>null\<close>.\<close>

definition null_rejecting_schema :: schema where
  "null_rejecting_schema input = Rejected JNull"


section \<open>Response envelopes and the error middleware (middleware/crud, middleware/error)\<close>

text \<open>
  \<^verbatim>\<open>new Date().toISOString()\<close> reads the clock; the string it returns is the parameter
  \<open>now\<close>. An omitted optional argument is \<^verbatim>\<open>undefined\<close>.
\<close>

definition successResponse :: "string \<Rightarrow> jsval \<Rightarrow> jsval" where
  "successResponse now payload =
     JObj [(''success'', JBool True), (''data'', payload), (''timestamp'', JStr now)]"

definition errorResponse :: "string \<Rightarrow> string \<Rightarrow> jsval \<Rightarrow> jsval" where
  "errorResponse now msg det =
     JObj [(''success'', JBool False),
           (''error'', JObj [(''message'', JStr msg), (''details'', det)]),
           (''timestamp'', JStr now)]"

text \<open>
  Reading a member of a value already known to be neither \<^verbatim>\<open>undefined\<close> nor \<^verbatim>\<open>null\<close>
  (an earlier read of the same value went through).
\<close>

definition member :: "jsval \<Rightarrow> string \<Rightarrow> jsval" where
  "member v k = (case js_get v k of Inl thrown \<Rightarrow> JUndefined | Inr x \<Rightarrow> x)"

record response =
  res_status :: jsval
  res_json :: jsval

text \<open>
  \<open>errorMiddleware\<close>: \<open>node_env\<close> is \<^verbatim>\<open>process.env.NODE_ENV\<close>, \<open>console\<close> the lines
  written with \<^verbatim>\<open>console.error\<close> so far. The first statement reads \<^verbatim>\<open>err.statusCode\<close>,
  which throws when \<open>err\<close> is \<^verbatim>\<open>undefined\<close> or \<^verbatim>\<open>null\<close>.
\<close>

definition errorMiddleware ::
  "string option \<Rightarrow> string \<Rightarrow> jsval \<Rightarrow> request \<Rightarrow> (string \<times> jsval) list
     \<Rightarrow> jsval + (response \<times> (string \<times> jsval) list)" where
  "errorMiddleware node_env now err req console =
     (case js_get err ''statusCode'' of
        Inl thrown \<Rightarrow> Inl thrown
      | Inr sc \<Rightarrow>
          (let status = js_or sc (JNum 500);
               error_code = js_or (member err ''code'') (JStr ''INTERNAL_SERVER_ERROR'');
               error_message = js_or (member err ''message'') (JStr ''An unexpected error occurred'');
               error_details =
                 (if node_env = Some ''development'' then member err ''stack'' else JUndefined);
               envelope =
                 JObj [(''success'', JBool False),
                       (''error'', JObj [(''code'', error_code), (''message'', error_message),
                                         (''details'', error_details)]),
                       (''timestamp'', JStr now)];
               logged =
                 (''Error:'',
                  JObj [(''code'', error_code), (''message'', error_message),
                        (''path'', JStr (req_path req)), (''method'', JStr (req_method req)),
                        (''stack'', member err ''stack'')])
           in Inr (\<lparr>res_status = status, res_json = envelope\<rparr>, console @ [logged])))"

text \<open>The error object of an envelope.\<close>

definition envelope_error :: "jsval \<Rightarrow> jsval" where
  "envelope_error envelope = member envelope ''error''"

text \<open>Example failures handed to the error middleware.\<close>

definition plain_failure :: jsval where
  "plain_failure = JObj [(''message'', JStr ''boom''), (''stack'', JStr ''Error: boom at ...'')]"

definition numeric_code_failure :: jsval where
  "numeric_code_failure = JObj [(''code'', JNum 11000), (''message'', JStr ''duplicate key'')]"


section \<open>The database gateway (utils/database)\<close>

text \<open>
  The enum \<^verbatim>\<open>ExpectedReturn\<close>; its member \<^verbatim>\<open>None\<close> is written \<open>None_expected\<close>. The
  \<^verbatim>\<open>default\<close> branch of the \<^verbatim>\<open>switch\<close> in \<open>dbRequest\<close> is not reached by a value of
  the enum.
\<close>

datatype ExpectedReturn = Single | Multi | None_expected

type_synonym pool_handle = nat

text \<open>
  \<^verbatim>\<open>sql.Transaction\<close> is an object of the driver; the lifecycle state the driver keeps in
  it is the field \<open>txn_state\<close>.
\<close>

datatype txn_state = Fresh | Active | Committed | RolledBack

record transaction =
  txn_pool :: pool_handle
  txn_state :: txn_state

datatype connection = OnPool pool_handle | OnTransaction transaction

text \<open>
  What \<^verbatim>\<open>request.execute\<close> resolves with: all record sets, and the first one under
  \<^verbatim>\<open>recordset\<close> (\<^verbatim>\<open>undefined\<close>, here \<open>None\<close>, when the routine returned no record set).
\<close>

record proc_result =
  recordsets :: "jsval list list"
  recordset :: "jsval list option"

text \<open>
  The \<^verbatim>\<open>mssql\<close> driver is outside the repository; its behaviour is a parameter.
  \<open>sql_connect k\<close> is the outcome of the \<open>k\<close>-th call of \<^verbatim>\<open>sql.connect(config.database)\<close>
  in the process; \<open>request_input\<close> gives the failure \<^verbatim>\<open>request.input(key, value)\<close>
  throws, if any; \<open>request_execute\<close> the outcome of \<^verbatim>\<open>request.execute(routine)\<close> on a
  request with the bound parameters. \<open>Inl\<close> is a thrown value or a rejection.
\<close>

record driver =
  sql_connect :: "nat \<Rightarrow> jsval + pool_handle"
  request_input :: "string \<Rightarrow> jsval \<Rightarrow> jsval option"
  request_execute :: "connection \<Rightarrow> (string \<times> jsval) list \<Rightarrow> string \<Rightarrow> jsval + proc_result"
  transaction_begin :: "transaction \<Rightarrow> jsval + transaction"
  transaction_commit :: "transaction \<Rightarrow> jsval + transaction"
  transaction_rollback :: "transaction \<Rightarrow> jsval + transaction"

text \<open>
  The state of the process: the module variable \<^verbatim>\<open>pool\<close>, the lines written with
  \<^verbatim>\<open>console.error\<close>, and two counters that only observe: how many times
  \<^verbatim>\<open>sql.connect\<close> was called and how many times \<^verbatim>\<open>pool\<close> was assigned.
\<close>

record process_state =
  pool :: "pool_handle option"
  connect_calls :: nat
  pool_writes :: nat
  console_error :: "(string \<times> jsval) list"

definition initial_state :: process_state where
  "initial_state = \<lparr>pool = None, connect_calls = 0, pool_writes = 0, console_error = []\<rparr>"

text \<open>
  \<open>getPool\<close> is \<^verbatim>\<open>if (!pool) { pool = await sql.connect(config.database); } return pool;\<close>.
  The \<^verbatim>\<open>await\<close> stands between the test of the variable and its assignment: the call
  runs up to there, other code of the process may run, and the call goes on when the
  promise of \<^verbatim>\<open>sql.connect\<close> has settled. A call is therefore either suspended, waiting
  for the outcome of its connect, or has returned.
\<close>

datatype pool_call =
    Suspended "jsval + pool_handle"
  | Returned "jsval + pool_handle"

text \<open>The call up to its \<^verbatim>\<open>await\<close>, or to its return when the pool is there already.\<close>

definition getPool_start :: "driver \<Rightarrow> process_state \<Rightarrow> pool_call \<times> process_state" where
  "getPool_start drv s =
     (case pool s of
        None \<Rightarrow>
          (Suspended (sql_connect drv (connect_calls s)),
           s\<lparr>connect_calls := Suc (connect_calls s)\<rparr>)
      | Some p \<Rightarrow> (Returned (Inr p), s))"

text \<open>
  The call from its \<^verbatim>\<open>await\<close> on, once the connect has settled: a rejection is thrown on,
  a pool is assigned to the variable and returned.
\<close>

definition getPool_resume ::
  "jsval + pool_handle \<Rightarrow> process_state \<Rightarrow> (jsval + pool_handle) \<times> process_state" where
  "getPool_resume settled s =
     (case settled of
        Inl thrown \<Rightarrow> (Inl thrown, s)
      | Inr p \<Rightarrow> (Inr p, s\<lparr>pool := Some p, pool_writes := Suc (pool_writes s)\<rparr>))"

text \<open>
  A call of \<open>getPool\<close> during which no other call of \<open>getPool\<close> runs: its two parts one
  after the other. This is the call as \<open>dbRequest\<close> and \<open>beginTransaction\<close> await it.
\<close>

definition getPool :: "driver \<Rightarrow> process_state \<Rightarrow> (jsval + pool_handle) \<times> process_state" where
  "getPool drv s =
     (case getPool_start drv s of
        (Returned r, s1) \<Rightarrow> (r, s1)
      | (Suspended settled, s1) \<Rightarrow> getPool_resume settled s1)"

text \<open>
  Several calls of \<open>getPool\<close> in one process, in any interleaving the event loop allows:
  \<open>Enter\<close> starts a further call, \<open>Settle i\<close> lets the call started as number \<open>i\<close> go on
  after its \<^verbatim>\<open>await\<close>. The run keeps the process state and the calls in the order in which
  they were started.
\<close>

datatype pool_event = Enter | Settle nat

fun pool_step ::
  "driver \<Rightarrow> process_state \<times> pool_call list \<Rightarrow> pool_event
     \<Rightarrow> process_state \<times> pool_call list" where
  "pool_step drv (s, calls) Enter =
     (case getPool_start drv s of (c, s1) \<Rightarrow> (s1, calls @ [c]))"
| "pool_step drv (s, calls) (Settle i) =
     (if i < length calls
      then (case calls ! i of
              Suspended settled \<Rightarrow>
                (case getPool_resume settled s of (r, s1) \<Rightarrow> (s1, calls[i := Returned r]))
            | Returned r \<Rightarrow> (s, calls))
      else (s, calls))"

definition pool_run ::
  "driver \<Rightarrow> pool_event list \<Rightarrow> process_state \<times> pool_call list
     \<Rightarrow> process_state \<times> pool_call list" where
  "pool_run drv events st = foldl (pool_step drv) st events"

text \<open>
  \<^verbatim>\<open>Object.keys(parameters).forEach((key) => request.input(key, parameters[key]))\<close>:
  the first failure thrown by \<^verbatim>\<open>request.input\<close> ends the loop.
\<close>

fun bind_inputs :: "driver \<Rightarrow> (string \<times> jsval) list \<Rightarrow> jsval option" where
  "bind_inputs drv [] = None"
| "bind_inputs drv ((key, v) # rest) =
     (case request_input drv key v of
        Some thrown \<Rightarrow> Some thrown
      | None \<Rightarrow> bind_inputs drv rest)"

text \<open>
  \<^verbatim>\<open>resultSetNames.forEach((name, index) => { namedResults[name] = result.recordsets[index]; })\<close>
\<close>

fun name_results ::
  "string list \<Rightarrow> nat \<Rightarrow> jsval list \<Rightarrow> (string \<times> jsval) list \<Rightarrow> (string \<times> jsval) list" where
  "name_results [] index sets namedResults = namedResults"
| "name_results (name # names) index sets namedResults =
     name_results names (Suc index) sets (obj_set namedResults name (js_index sets index))"

text \<open>The \<^verbatim>\<open>switch (expectedReturn)\<close>. \<^verbatim>\<open>result.recordset[0]\<close> throws when there is no
  first record set.\<close>

definition shape_result ::
  "ExpectedReturn \<Rightarrow> string list option \<Rightarrow> proc_result \<Rightarrow> jsval + jsval" where
  "shape_result expectedReturn resultSetNames result =
     (case expectedReturn of
        Single \<Rightarrow>
          (case recordset result of
             None \<Rightarrow> Inl (type_error ''0'')
           | Some rows \<Rightarrow> Inr (js_index rows 0))
      | Multi \<Rightarrow>
          (case resultSetNames of
             None \<Rightarrow> Inr (JArr (map JArr (recordsets result)))
           | Some names \<Rightarrow>
               if length names > 0
               then Inr (JObj (name_results names 0 (map JArr (recordsets result)) []))
               else Inr (JArr (map JArr (recordsets result))))
      | None_expected \<Rightarrow> Inr JNull)"

text \<open>The \<^verbatim>\<open>try\<close> block of \<open>dbRequest\<close>.\<close>

definition try_dbRequest ::
  "driver \<Rightarrow> string \<Rightarrow> (string \<times> jsval) list \<Rightarrow> ExpectedReturn \<Rightarrow> transaction option
     \<Rightarrow> string list option \<Rightarrow> process_state \<Rightarrow> (jsval + jsval) \<times> process_state" where
  "try_dbRequest drv routine parameters expectedReturn txn resultSetNames s =
     (case getPool drv s of
        (Inl thrown, s1) \<Rightarrow> (Inl thrown, s1)
      | (Inr currentPool, s1) \<Rightarrow>
          (let conn = (case txn of Some t \<Rightarrow> OnTransaction t | None \<Rightarrow> OnPool currentPool) in
           case bind_inputs drv parameters of
             Some thrown \<Rightarrow> (Inl thrown, s1)
           | None \<Rightarrow>
               (case request_execute drv conn parameters routine of
                  Inl thrown \<Rightarrow> (Inl thrown, s1)
                | Inr result \<Rightarrow> (shape_result expectedReturn resultSetNames result, s1))))"

text \<open>
  The \<^verbatim>\<open>catch\<close> block: it logs the routine, \<^verbatim>\<open>error.message\<close> and the parameters, then
  throws the caught value again. Reading \<^verbatim>\<open>error.message\<close> itself throws when the caught
  value is \<^verbatim>\<open>undefined\<close> or \<^verbatim>\<open>null\<close>.
\<close>

definition catch_dbRequest ::
  "string \<Rightarrow> (string \<times> jsval) list \<Rightarrow> jsval \<Rightarrow> process_state
     \<Rightarrow> (jsval + jsval) \<times> process_state" where
  "catch_dbRequest routine parameters error s =
     (case js_get error ''message'' of
        Inl thrown \<Rightarrow> (Inl thrown, s)
      | Inr msg \<Rightarrow>
          (Inl error,
           s\<lparr>console_error := console_error s @
                [(''Database error:'',
                  JObj [(''routine'', JStr routine), (''error'', msg),
                        (''parameters'', JObj parameters)])]\<rparr>))"

definition dbRequest ::
  "driver \<Rightarrow> string \<Rightarrow> (string \<times> jsval) list \<Rightarrow> ExpectedReturn \<Rightarrow> transaction option
     \<Rightarrow> string list option \<Rightarrow> process_state \<Rightarrow> (jsval + jsval) \<times> process_state" where
  "dbRequest drv routine parameters expectedReturn txn resultSetNames s =
     (case try_dbRequest drv routine parameters expectedReturn txn resultSetNames s of
        (Inr v, s1) \<Rightarrow> (Inr v, s1)
      | (Inl error, s1) \<Rightarrow> catch_dbRequest routine parameters error s1)"

definition beginTransaction ::
  "driver \<Rightarrow> process_state \<Rightarrow> (jsval + transaction) \<times> process_state" where
  "beginTransaction drv s =
     (case getPool drv s of
        (Inl thrown, s1) \<Rightarrow> (Inl thrown, s1)
      | (Inr currentPool, s1) \<Rightarrow>
          (transaction_begin drv \<lparr>txn_pool = currentPool, txn_state = Fresh\<rparr>, s1))"

definition commitTransaction :: "driver \<Rightarrow> transaction \<Rightarrow> jsval + transaction" where
  "commitTransaction drv t = transaction_commit drv t"

definition rollbackTransaction :: "driver \<Rightarrow> transaction \<Rightarrow> jsval + transaction" where
  "rollbackTransaction drv t = transaction_rollback drv t"


subsection \<open>An example driver\<close>

text \<open>
  A driver that behaves as \<^verbatim>\<open>mssql\<close> is documented to: every connect succeeds with a new
  pool; \<^verbatim>\<open>[dbo].[spTaskGet]\<close> returns one empty record set, \<^verbatim>\<open>[dbo].[spTaskList]\<close> two
  record sets of one row each, any other routine fails with a \<^verbatim>\<open>RequestError\<close>; commit and
  rollback of a transaction that is not active fail with the driver's
  \<^verbatim>\<open>TransactionError\<close> (\<^verbatim>\<open>ENOTBEGUN\<close>).
\<close>

definition request_error :: jsval where
  "request_error =
     JObj [(''name'', JStr ''RequestError''), (''code'', JStr ''EREQUEST''),
           (''message'', JStr ''Could not find stored procedure'')]"

definition transaction_error :: "string \<Rightarrow> jsval" where
  "transaction_error c =
     JObj [(''name'', JStr ''TransactionError''), (''code'', JStr c),
           (''message'', JStr ''Transaction has not begun. Call begin() first.'')]"

definition task_row :: "int \<Rightarrow> jsval" where
  "task_row n = JObj [(''idTask'', JNum n)]"

definition example_execute ::
  "connection \<Rightarrow> (string \<times> jsval) list \<Rightarrow> string \<Rightarrow> jsval + proc_result" where
  "example_execute conn parameters routine =
     (if routine = ''[dbo].[spTaskGet]'' then Inr \<lparr>recordsets = [[]], recordset = Some []\<rparr>
      else if routine = ''[dbo].[spTaskList]''
      then Inr \<lparr>recordsets = [[task_row 1], [task_row 2]], recordset = Some [task_row 1]\<rparr>
      else Inl request_error)"

definition example_driver :: driver where
  "example_driver =
     \<lparr>sql_connect = (\<lambda>k. Inr k),
      request_input = (\<lambda>key v. None),
      request_execute = example_execute,
      transaction_begin =
        (\<lambda>t. if txn_state t = Fresh then Inr (t\<lparr>txn_state := Active\<rparr>)
             else Inl (transaction_error ''EALREADYBEGUN'')),
      transaction_commit =
        (\<lambda>t. if txn_state t = Active then Inr (t\<lparr>txn_state := Committed\<rparr>)
             else Inl (transaction_error ''ENOTBEGUN'')),
      transaction_rollback =
        (\<lambda>t. if txn_state t = Active then Inr (t\<lparr>txn_state := RolledBack\<rparr>)
             else Inl (transaction_error ''ENOTBEGUN''))\<rparr>"

text \<open>A transaction of the example driver after \<^verbatim>\<open>begin\<close> and \<^verbatim>\<open>commit\<close>.\<close>

definition committed_transaction :: transaction where
  "committed_transaction = \<lparr>txn_pool = 0, txn_state = Committed\<rparr>"


section \<open>Properties of the validation pipeline\<close>

lemma js_get_not_nullish:
  "e \<noteq> JUndefined \<Longrightarrow> e \<noteq> JNull \<Longrightarrow> js_get e k = Inr (member e k)"
  by (cases e) (simp_all add: member_def)

lemma js_get_zod_error: "js_get (zod_error issues) ''errors'' = Inr (JArr issues)"
  by (simp add: zod_error_def)


lemma validate_rejected:
  "schema (merge_input req) = Rejected e \<Longrightarrow> js_get e ''errors'' = Inr d \<Longrightarrow>
   validate this req schema operation =
     Inr (None, Some \<lparr>statusCode = 400, code = ''VALIDATION_ERROR'',
                      message = ''Validation failed'', details = d\<rparr>)"
  by (simp add: validate_def)

lemma validate_one_slot:
  "validate this req schema operation = Inr (r, err) \<Longrightarrow> (r = None) \<noteq> (err = None)"
  by (auto simp: validate_def split: parse_outcome.splits sum.splits)

text \<open>
  C1. Every entry point is to return a tuple with exactly one slot populated, for every
  request and schema. When the schema's promise rejects with \<^verbatim>\<open>null\<close>, none of the four
  entry points returns a tuple: each rejects with the \<^verbatim>\<open>TypeError\<close> thrown in the
  \<^verbatim>\<open>catch\<close> handler. Where a tuple is returned, it has exactly one slot populated
  (\<open>validate_resolved\<close>, \<open>validate_rejected\<close>, \<open>validate_one_slot\<close>).
\<close>

theorem entry_points_no_tuple_on_null_rejection:
  "create [] invalid_request null_rejecting_schema = Inl (type_error ''errors'')
   \<and> read [] invalid_request null_rejecting_schema = Inl (type_error ''errors'')
   \<and> update [] invalid_request null_rejecting_schema = Inl (type_error ''errors'')
   \<and> delete [] invalid_request null_rejecting_schema = Inl (type_error ''errors'')"
  by (simp add: create_def read_def update_def delete_def validate_def null_rejecting_schema_def)


text \<open>
  C2. The pipeline is to turn every failure raised by the schema into the rejected slot.
  When the schema's promise rejects with \<^verbatim>\<open>undefined\<close>, the \<^verbatim>\<open>catch\<close> handler's read of
  \<^verbatim>\<open>error.errors\<close> throws, and the entry point itself rejects with that \<^verbatim>\<open>TypeError\<close>.
\<close>

theorem validate_raises_on_undefined_rejection:
  "create [] invalid_request rejecting_schema = Inl (type_error ''errors'')"
  by (simp add: create_def validate_def rejecting_schema_def)



section \<open>Properties of the database gateway\<close>

lemma dbRequest_executed:
  assumes "getPool drv s = (Inr p, s1)"
    and "bind_inputs drv parameters = None"
    and "request_execute drv (case txn of Some t \<Rightarrow> OnTransaction t | None \<Rightarrow> OnPool p)
           parameters routine = outcome"
  shows "try_dbRequest drv routine parameters expectedReturn txn names s =
           (case outcome of
              Inl thrown \<Rightarrow> (Inl thrown, s1)
            | Inr result \<Rightarrow> (shape_result expectedReturn names result, s1))"
  using assms by (simp add: try_dbRequest_def)

text \<open>
  C4. A call of \<open>dbRequest\<close> with expected shape \<open>Single\<close>, whose routine was executed
  and returned a first record set with no record, succeeds, and its result is
  \<^verbatim>\<open>undefined\<close>.
\<close>

theorem dbRequest_single_no_rows:
  assumes "getPool drv s = (Inr p, s1)"
    and "bind_inputs drv parameters = None"
    and "request_execute drv (case txn of Some t \<Rightarrow> OnTransaction t | None \<Rightarrow> OnPool p)
           parameters routine = Inr result"
    and "recordset result = Some []"
  shows "dbRequest drv routine parameters Single txn names s = (Inr JUndefined, s1)"
proof -
  have "shape_result Single names result = Inr JUndefined"
    using assms(4) by (simp add: shape_result_def js_index_def)
  then show ?thesis
    using dbRequest_executed [OF assms(1-3), of Single names]
    by (simp add: dbRequest_def)
qed

lemma getPool_example_initial:
  "getPool example_driver initial_state =
     (Inr 0, initial_state\<lparr>pool := Some 0, connect_calls := 1, pool_writes := 1\<rparr>)"
  by (simp add: getPool_def getPool_start_def getPool_resume_def example_driver_def
      initial_state_def)

lemma bind_inputs_example: "bind_inputs example_driver parameters = None"
  by (induction parameters) (auto simp: example_driver_def)

lemma request_execute_example: "request_execute example_driver = example_execute"
  by (simp add: example_driver_def)

text \<open>The example driver's \<^verbatim>\<open>[dbo].[spTaskGet]\<close> returns one empty record set.\<close>

theorem dbRequest_single_no_rows_witness:
  "dbRequest example_driver ''[dbo].[spTaskGet]'' [(''idTask'', JNum 7)] Single None None
     initial_state =
   (Inr JUndefined, initial_state\<lparr>pool := Some 0, connect_calls := 1, pool_writes := 1\<rparr>)"
proof -
  have "request_execute example_driver (case None of Some t \<Rightarrow> OnTransaction t | None \<Rightarrow> OnPool 0)
          [(''idTask'', JNum 7)] ''[dbo].[spTaskGet]'' = Inr \<lparr>recordsets = [[]], recordset = Some []\<rparr>"
    by (simp add: request_execute_example example_execute_def)
  from dbRequest_single_no_rows [OF getPool_example_initial bind_inputs_example this]
  show ?thesis by simp
qed










text \<open>
  C10. With expected shape \<open>Multi\<close>, an empty list of labels behaves as no list of labels:
  in every state and with every driver the call does exactly what the call without labels
  does, and when the routine was executed the call returns the whole sequence of its
  record sets in order, as an array and not as an object of labels.
\<close>

theorem dbRequest_multi_empty_labels:
  "dbRequest drv routine parameters Multi txn (Some []) s =
     dbRequest drv routine parameters Multi txn None s
   \<and> (getPool drv s = (Inr p, s1)
        \<and> bind_inputs drv parameters = None
        \<and> request_execute drv (case txn of Some t \<Rightarrow> OnTransaction t | None \<Rightarrow> OnPool p)
             parameters routine = Inr result \<longrightarrow>
        dbRequest drv routine parameters Multi txn (Some []) s =
          (Inr (JArr (map JArr (recordsets result))), s1)
        \<and> dbRequest drv routine parameters Multi txn None s =
          (Inr (JArr (map JArr (recordsets result))), s1))"
proof -
  have shape: "shape_result Multi (Some []) r = Inr (JArr (map JArr (recordsets r)))"
    "shape_result Multi None r = Inr (JArr (map JArr (recordsets r)))" for r
    by (simp_all add: shape_result_def)
  have same: "try_dbRequest drv routine parameters Multi txn (Some []) s =
        try_dbRequest drv routine parameters Multi txn None s"
    by (simp add: try_dbRequest_def shape split: prod.splits sum.splits option.splits)
  have executed: "dbRequest drv routine parameters Multi txn labels s =
      (shape_result Multi labels result, s1)"
    if "getPool drv s = (Inr p, s1)" "bind_inputs drv parameters = None"
      "request_execute drv (case txn of Some t \<Rightarrow> OnTransaction t | None \<Rightarrow> OnPool p)
         parameters routine = Inr result"
      "labels = Some [] \<or> labels = None"
    for labels
    using dbRequest_executed [OF that(1-3), of Multi labels] that(4)
    by (auto simp: dbRequest_def shape)
  from same executed show ?thesis
    by (simp add: dbRequest_def shape)
qed

text \<open>
  With an empty list of labels the two record sets of \<^verbatim>\<open>[dbo].[spTaskList]\<close> come back as
  an array of two arrays.
\<close>

theorem dbRequest_multi_empty_labels_witness:
  "dbRequest example_driver ''[dbo].[spTaskList]'' [] Multi None (Some []) initial_state =
     (Inr (JArr [JArr [task_row 1], JArr [task_row 2]]),
      initial_state\<lparr>pool := Some 0, connect_calls := 1, pool_writes := 1\<rparr>)"
proof -
  have ex: "request_execute example_driver (case None of Some t \<Rightarrow> OnTransaction t | None \<Rightarrow> OnPool 0)
          [] ''[dbo].[spTaskList]'' =
        Inr \<lparr>recordsets = [[task_row 1], [task_row 2]], recordset = Some [task_row 1]\<rparr>"
    by (simp add: request_execute_example example_execute_def)
  from dbRequest_multi_empty_labels
    [of example_driver "''[dbo].[spTaskList]''" "[]" None initial_state 0
      "initial_state\<lparr>pool := Some 0, connect_calls := 1, pool_writes := 1\<rparr>"
      "\<lparr>recordsets = [[task_row 1], [task_row 2]], recordset = Some [task_row 1]\<rparr>"]
    getPool_example_initial bind_inputs_example [of "[]"] ex
  show ?thesis by simp
qed

text \<open>
  C6, as amended. When the driver's execution of the routine fails with a failure that is
  neither \<^verbatim>\<open>undefined\<close> nor \<^verbatim>\<open>null\<close>, \<open>dbRequest\<close> fails with that very failure, not
  wrapped and not changed; before it throws, it writes one line to the error console that
  carries the routine name, the failure's message and the parameter set.
\<close>

theorem dbRequest_rethrows_driver_failure:
  assumes "getPool drv s = (Inr p, s1)"
    and "bind_inputs drv parameters = None"
    and "request_execute drv (case txn of Some t \<Rightarrow> OnTransaction t | None \<Rightarrow> OnPool p)
           parameters routine = Inl failure"
    and "failure \<noteq> JUndefined" and "failure \<noteq> JNull"
  shows "dbRequest drv routine parameters expectedReturn txn names s =
           (Inl failure,
            s1\<lparr>console_error := console_error s1 @
                 [(''Database error:'',
                   JObj [(''routine'', JStr routine), (''error'', member failure ''message''),
                         (''parameters'', JObj parameters)])]\<rparr>)"
  using dbRequest_executed [OF assms(1-3), of expectedReturn names]
    js_get_not_nullish [OF assms(4,5), of "''message''"]
  by (simp add: dbRequest_def catch_dbRequest_def)

text \<open>The example driver fails on a routine it does not know.\<close>

theorem dbRequest_rethrows_driver_failure_witness:
  "dbRequest example_driver ''[dbo].[spMissing]'' [(''idTask'', JNum 7)] Single None None
     initial_state =
   (Inl request_error,
    initial_state\<lparr>pool := Some 0, connect_calls := 1, pool_writes := 1,
      console_error :=
        [(''Database error:'',
          JObj [(''routine'', JStr ''[dbo].[spMissing]''),
                (''error'', JStr ''Could not find stored procedure''),
                (''parameters'', JObj [(''idTask'', JNum 7)])])]\<rparr>)"
proof -
  have ex: "request_execute example_driver (case None of Some t \<Rightarrow> OnTransaction t | None \<Rightarrow> OnPool 0)
          [(''idTask'', JNum 7)] ''[dbo].[spMissing]'' = Inl request_error"
    by (simp add: request_execute_example example_execute_def)
  have n1: "request_error \<noteq> JUndefined" and n2: "request_error \<noteq> JNull"
    by (simp_all add: request_error_def)
  have m: "member request_error ''message'' = JStr ''Could not find stored procedure''"
    by (simp add: member_def request_error_def)
  from dbRequest_rethrows_driver_failure [OF getPool_example_initial bind_inputs_example ex n1 n2,
      of Single None]
  show ?thesis by (simp add: m initial_state_def)
qed

text \<open>
  C6 as stated fails: the value \<open>dbRequest\<close> throws is the driver's own
  \<^verbatim>\<open>RequestError\<close>, not a \<^verbatim>\<open>DatabaseError\<close> around it, and neither the routine name nor
  the parameter set is attached to it.
\<close>

theorem no_database_error_counterexample:
  "fst (dbRequest example_driver ''[dbo].[spMissing]'' [(''idTask'', JNum 7)] Single None None
          initial_state) = Inl request_error
   \<and> js_get request_error ''name'' = Inr (JStr ''RequestError'')
   \<and> js_get request_error ''name'' \<noteq> Inr (JStr ''DatabaseError'')
   \<and> \<not> has_prop request_error ''routine''
   \<and> \<not> has_prop request_error ''parameters''"
proof -
  have "request_execute example_driver (case None of Some t \<Rightarrow> OnTransaction t | None \<Rightarrow> OnPool 0)
          [(''idTask'', JNum 7)] ''[dbo].[spMissing]'' = Inl request_error"
    by (simp add: request_execute_example example_execute_def)
  from dbRequest_executed [OF getPool_example_initial bind_inputs_example this, of Single None]
  have "fst (dbRequest example_driver ''[dbo].[spMissing]'' [(''idTask'', JNum 7)] Single None None
          initial_state) = Inl request_error"
    by (simp add: dbRequest_def catch_dbRequest_def request_error_def)
  then show ?thesis
    by (simp add: request_error_def)
qed

lemma getPool_created: "getPool drv s = (Inr p, s1) \<Longrightarrow> pool s1 = Some p"
  by (auto simp: getPool_def getPool_start_def getPool_resume_def
      split: option.splits sum.splits)

lemma getPool_reuse: "pool s = Some p \<Longrightarrow> getPool drv s = (Inr p, s)"
  by (simp add: getPool_def getPool_start_def)

text \<open>A call that is started and settled with nothing in between is a call of \<open>getPool\<close>.\<close>

lemma uninterrupted_call:
  "pool_run drv [Enter, Settle (length calls)] (s, calls) =
     (snd (getPool drv s), calls @ [Returned (fst (getPool drv s))])"
  by (cases "pool s"; cases "sql_connect drv (connect_calls s)")
     (simp_all add: pool_run_def getPool_def getPool_start_def getPool_resume_def)


text \<open>
  C8, as amended. \<open>commitTransaction\<close> and \<open>rollbackTransaction\<close> check nothing themselves:
  on every transaction, terminated or not, the outcome is the outcome of the driver's
  \<^verbatim>\<open>commit()\<close> or \<^verbatim>\<open>rollback()\<close>, and a failure is the driver's own failure. With a driver
  that refuses to end a transaction that is not active, ending a transaction a second time
  fails with the driver's failure.
\<close>

theorem end_transaction_is_the_drivers:
  "commitTransaction drv t = transaction_commit drv t
   \<and> rollbackTransaction drv t = transaction_rollback drv t
   \<and> ((\<forall>u. txn_state u \<noteq> Active \<longrightarrow>
           transaction_commit drv u = Inl (refusal u) \<and> transaction_rollback drv u = Inl (refusal u))
        \<and> (txn_state t = Committed \<or> txn_state t = RolledBack) \<longrightarrow>
        commitTransaction drv t = Inl (refusal t) \<and> rollbackTransaction drv t = Inl (refusal t))"
  by (auto simp: commitTransaction_def rollbackTransaction_def)

text \<open>
  With the example driver, a commit and a rollback after a commit both fail with the
  driver's \<^verbatim>\<open>TransactionError\<close>.
\<close>

theorem end_transaction_is_the_drivers_witness:
  "commitTransaction example_driver committed_transaction = Inl (transaction_error ''ENOTBEGUN'')
   \<and> rollbackTransaction example_driver committed_transaction = Inl (transaction_error ''ENOTBEGUN'')"
  using end_transaction_is_the_drivers
    [of example_driver committed_transaction "\<lambda>u. transaction_error ''ENOTBEGUN''"]
  by (simp add: example_driver_def committed_transaction_def)

text \<open>
  C8 as stated fails: the failure of a second commit is the \<^verbatim>\<open>TransactionError\<close> of the
  driver, not an \<^verbatim>\<open>InvalidStateError\<close>.
\<close>

theorem no_invalid_state_error_counterexample:
  "beginTransaction example_driver initial_state =
     (Inr \<lparr>txn_pool = 0, txn_state = Active\<rparr>,
      initial_state\<lparr>pool := Some 0, connect_calls := 1, pool_writes := 1\<rparr>)
   \<and> commitTransaction example_driver \<lparr>txn_pool = 0, txn_state = Active\<rparr> = Inr committed_transaction
   \<and> commitTransaction example_driver committed_transaction = Inl (transaction_error ''ENOTBEGUN'')
   \<and> js_get (transaction_error ''ENOTBEGUN'') ''name'' = Inr (JStr ''TransactionError'')
   \<and> js_get (transaction_error ''ENOTBEGUN'') ''name'' \<noteq> Inr (JStr ''InvalidStateError'')"
proof -
  have "transaction_begin example_driver \<lparr>txn_pool = 0, txn_state = Fresh\<rparr> =
      Inr \<lparr>txn_pool = 0, txn_state = Active\<rparr>"
    by (simp add: example_driver_def)
  then have "beginTransaction example_driver initial_state =
     (Inr \<lparr>txn_pool = 0, txn_state = Active\<rparr>,
      initial_state\<lparr>pool := Some 0, connect_calls := 1, pool_writes := 1\<rparr>)"
    by (simp add: beginTransaction_def getPool_example_initial)
  moreover have
    "commitTransaction example_driver \<lparr>txn_pool = 0, txn_state = Active\<rparr> = Inr committed_transaction"
    "commitTransaction example_driver committed_transaction = Inl (transaction_error ''ENOTBEGUN'')"
    by (simp_all add: commitTransaction_def example_driver_def committed_transaction_def)
  moreover have
    "js_get (transaction_error ''ENOTBEGUN'') ''name'' = Inr (JStr ''TransactionError'')"
    by (simp add: transaction_error_def)
  ultimately show ?thesis by simp
qed


section \<open>Properties of the error envelopes\<close>

lemma errorResponse_error:
  "envelope_error (errorResponse now msg det) = JObj [(''message'', JStr msg), (''details'', det)]"
  by (simp add: envelope_error_def member_def errorResponse_def)

lemma errorMiddleware_returns:
  assumes "err \<noteq> JUndefined" and "err \<noteq> JNull"
  shows "errorMiddleware node_env now err req console =
     Inr (\<lparr>res_status = js_or (member err ''statusCode'') (JNum 500),
           res_json =
             JObj [(''success'', JBool False),
                   (''error'',
                    JObj [(''code'', js_or (member err ''code'') (JStr ''INTERNAL_SERVER_ERROR'')),
                          (''message'', js_or (member err ''message'') (JStr ''An unexpected error occurred'')),
                          (''details'',
                           if node_env = Some ''development'' then member err ''stack'' else JUndefined)]),
                   (''timestamp'', JStr now)]\<rparr>,
          console @
            [(''Error:'',
              JObj [(''code'', js_or (member err ''code'') (JStr ''INTERNAL_SERVER_ERROR'')),
                    (''message'', js_or (member err ''message'') (JStr ''An unexpected error occurred'')),
                    (''path'', JStr (req_path req)), (''method'', JStr (req_method req)),
                    (''stack'', member err ''stack'')])])"
  using js_get_not_nullish [OF assms, of "''statusCode''"]
  by (simp add: errorMiddleware_def Let_def)

lemma truthy_js_or: "truthy b \<Longrightarrow> truthy (js_or a b)"
  by (simp add: js_or_def)

text \<open>
  C9, as amended. Every error envelope has \<^verbatim>\<open>success: false\<close>, an error object with a
  message and a details property, and the timestamp. The error object of the envelope that
  \<open>errorResponse\<close> builds has these two properties only: it carries no code. The error
  object of the envelope that the error middleware sends carries a code as well:
  \<^verbatim>\<open>err.code\<close> when that is truthy, \<^verbatim>\<open>INTERNAL_SERVER_ERROR\<close> otherwise.
\<close>

theorem error_envelope_shapes:
  "member (errorResponse now msg det) ''success'' = JBool False
   \<and> member (errorResponse now msg det) ''timestamp'' = JStr now
   \<and> envelope_error (errorResponse now msg det) = JObj [(''message'', JStr msg), (''details'', det)]
   \<and> \<not> has_prop (envelope_error (errorResponse now msg det)) ''code''
   \<and> (err \<noteq> JUndefined \<and> err \<noteq> JNull \<longrightarrow>
        (\<exists>res console'.
           errorMiddleware node_env now err req console = Inr (res, console')
         \<and> member (res_json res) ''success'' = JBool False
         \<and> member (res_json res) ''timestamp'' = JStr now
         \<and> has_prop (envelope_error (res_json res)) ''code''
         \<and> has_prop (envelope_error (res_json res)) ''message''
         \<and> has_prop (envelope_error (res_json res)) ''details''
         \<and> member (envelope_error (res_json res)) ''code'' =
             js_or (member err ''code'') (JStr ''INTERNAL_SERVER_ERROR'')
         \<and> truthy (member (envelope_error (res_json res)) ''code'')))"
proof -
  have helper: "member (errorResponse now msg det) ''success'' = JBool False"
    "member (errorResponse now msg det) ''timestamp'' = JStr now"
    by (simp_all add: member_def errorResponse_def)
  have no_code: "\<not> has_prop (envelope_error (errorResponse now msg det)) ''code''"
    by (simp add: errorResponse_error)
  have middleware: "\<exists>res console'.
           errorMiddleware node_env now err req console = Inr (res, console')
         \<and> member (res_json res) ''success'' = JBool False
         \<and> member (res_json res) ''timestamp'' = JStr now
         \<and> has_prop (envelope_error (res_json res)) ''code''
         \<and> has_prop (envelope_error (res_json res)) ''message''
         \<and> has_prop (envelope_error (res_json res)) ''details''
         \<and> member (envelope_error (res_json res)) ''code'' =
             js_or (member err ''code'') (JStr ''INTERNAL_SERVER_ERROR'')
         \<and> truthy (member (envelope_error (res_json res)) ''code'')"
    if "err \<noteq> JUndefined" "err \<noteq> JNull"
    unfolding errorMiddleware_returns [OF that]
    by (simp add: envelope_error_def member_def truthy_js_or)
  from helper no_code middleware show ?thesis
    by (simp add: errorResponse_error)
qed

text \<open>
  A failure without a code gets the default code; a failure with the numeric code 11000
  keeps it, so the code of an envelope is not always a string.
\<close>

theorem error_envelope_shapes_witness:
  "(\<exists>res console'.
      errorMiddleware (Some ''production'') ''2024-05-01T10:00:00.000Z'' plain_failure
        invalid_request [] = Inr (res, console')
    \<and> member (envelope_error (res_json res)) ''code'' = JStr ''INTERNAL_SERVER_ERROR'')
   \<and> (\<exists>res console'.
      errorMiddleware (Some ''production'') ''2024-05-01T10:00:00.000Z'' numeric_code_failure
        invalid_request [] = Inr (res, console')
    \<and> member (envelope_error (res_json res)) ''code'' = JNum 11000)"
proof -
  have p: "plain_failure \<noteq> JUndefined \<and> plain_failure \<noteq> JNull"
    and n: "numeric_code_failure \<noteq> JUndefined \<and> numeric_code_failure \<noteq> JNull"
    by (simp_all add: plain_failure_def numeric_code_failure_def)
  have pc: "js_or (member plain_failure ''code'') (JStr ''INTERNAL_SERVER_ERROR'') =
      JStr ''INTERNAL_SERVER_ERROR''"
    and nc: "js_or (member numeric_code_failure ''code'') (JStr ''INTERNAL_SERVER_ERROR'') =
      JNum 11000"
    by (simp_all add: plain_failure_def numeric_code_failure_def member_def js_or_def)
  from error_envelope_shapes
    [of "''2024-05-01T10:00:00.000Z''" "''x''" JUndefined plain_failure "Some ''production''"
      invalid_request "[]"] p pc
  have first: "\<exists>res console'.
      errorMiddleware (Some ''production'') ''2024-05-01T10:00:00.000Z'' plain_failure
        invalid_request [] = Inr (res, console')
    \<and> member (envelope_error (res_json res)) ''code'' = JStr ''INTERNAL_SERVER_ERROR''"
    by auto
  from error_envelope_shapes
    [of "''2024-05-01T10:00:00.000Z''" "''x''" JUndefined numeric_code_failure "Some ''production''"
      invalid_request "[]"] n nc
  have second: "\<exists>res console'.
      errorMiddleware (Some ''production'') ''2024-05-01T10:00:00.000Z'' numeric_code_failure
        invalid_request [] = Inr (res, console')
    \<and> member (envelope_error (res_json res)) ''code'' = JNum 11000"
    by auto
  from first second show ?thesis by blast
qed

text \<open>
  C9 as stated fails for \<open>errorResponse\<close>: the error object of its envelope has no code.
\<close>

theorem errorResponse_without_code_counterexample:
  "envelope_error (errorResponse ''2024-05-01T10:00:00.000Z'' ''Validation failed'' (JArr [id_issue]))
     = JObj [(''message'', JStr ''Validation failed''), (''details'', JArr [id_issue])]
   \<and> \<not> has_prop
        (envelope_error
           (errorResponse ''2024-05-01T10:00:00.000Z'' ''Validation failed'' (JArr [id_issue])))
        ''code''"
  by (simp add: envelope_error_def member_def errorResponse_def)

end
